theory Spec2Isabelle
  imports Complex_Main "HOL-Library.Word"
begin

section \<open>Common data\<close>

text \<open>
  A JavaScript \<open>number\<close> that arrives in a tool call comes out of JSON, so it is a finite
  value; amounts are modelled as \<open>real\<close>. A timestamp is an instant, in milliseconds
  since the epoch.
\<close>

type_synonym number = real
type_synonym timestamp = int

text \<open>\<open>Array.prototype.join\<close> on a list of strings.\<close>

fun join :: "string \<Rightarrow> string list \<Rightarrow> string" where
  "join sep [] = []"
| "join sep [x] = x"
| "join sep (x # y # ys) = x @ sep @ join sep (y # ys)"

section \<open>Spend limits (security/limits.ts)\<close>

datatype entry_status = Pending | Approved | Rejected | Failed

record ledger_entry =
  entry_timestamp :: timestamp
  entry_amount :: number
  entry_status :: entry_status
  entry_descriptor :: string

record security_config =
  maxTransactionAmount :: number
  autoApproveUnder :: number
  dailyLimit :: number

record validation =
  valid :: bool
  errors :: "string list"
  autoApprove :: bool

definition dayMs :: int where
  "dayMs = 24 * 60 * 60 * 1000"

text \<open>
  Modelled from the spec: the rolling window of the Spend-Limit Validator, whose source
  file (security/limits.ts with the transaction history behind it) is not part of the
  sources at hand. The window is the 24 hours that end at the current instant.
\<close>

definition inWindow :: "timestamp \<Rightarrow> ledger_entry \<Rightarrow> bool" where
  "inWindow now e = (now - dayMs \<le> entry_timestamp e \<and> entry_timestamp e \<le> now)"

text \<open>
  Modelled from the spec: the daily cumulative spend, the sum over the ledger of the
  entries that are approved and fall in the window; pending, rejected and failed entries
  are passed over.
\<close>

fun dailyTotal :: "timestamp \<Rightarrow> ledger_entry list \<Rightarrow> number" where
  "dailyTotal now [] = 0"
| "dailyTotal now (e # es) =
     (if entry_status e = Approved \<and> inWindow now e
      then entry_amount e + dailyTotal now es
      else dailyTotal now es)"

text \<open>
  Modelled from the spec: \<open>SpendLimits.validateTransaction\<close> (security/limits.ts is
  missing). Section 4.4: a non-positive amount is rejected at once; the two configured
  ceilings are then checked together and every violated one contributes its message; the
  result is valid when no message was produced, and a valid result signals
  \<open>autoApprove\<close> when the amount does not exceed the auto-approve threshold.
\<close>

definition validateTransaction ::
  "security_config \<Rightarrow> ledger_entry list \<Rightarrow> timestamp \<Rightarrow> number \<Rightarrow> validation" where
  "validateTransaction cfg ledger now amount =
     (if amount \<le> 0
      then \<lparr>valid = False, errors = [''amount must be positive''], autoApprove = False\<rparr>
      else
        (let errs =
               (if amount > maxTransactionAmount cfg
                then [''exceeds per-transaction limit''] else []) @
               (if dailyTotal now ledger + amount > dailyLimit cfg
                then [''would exceed daily limit''] else [])
         in \<lparr>valid = (errs = []), errors = errs,
             autoApprove = (errs = [] \<and> amount \<le> autoApproveUnder cfg)\<rparr>))"

section \<open>The payment tool (mcp-server/tools.ts)\<close>

text \<open>\<open>PaymentRequest\<close>; its field \<open>method\<close> is \<open>httpMethod\<close> here.\<close>

record payment_request =
  url :: string
  httpMethod :: string
  description :: string
  maxAmount :: "number option"
  body :: "string option"

text \<open>
  The payment handler (x402/payment.ts) is a collaborator: what \<open>initialize\<close> and
  \<open>executePayment\<close> do is taken as given, \<open>Inl msg\<close> standing for a thrown error with
  that message. Every network call of the payment tool is issued inside the handler.
\<close>

record 'r payment_handler =
  initialize :: "string + unit"
  executePayment :: "string \<Rightarrow> string \<Rightarrow> string option \<Rightarrow> string \<Rightarrow> string + 'r"

datatype pay_event =
    CallValidateTransaction number
  | NewPaymentHandler
  | CallInitialize
  | CallExecutePayment string string

text \<open>
  The tool answers either with its own \<open>{success: false, error}\<close> object or with
  whatever the handler returned.
\<close>

datatype 'r tool_output = Failure string | Returned 'r

text \<open>The lines after the validation block: construct, initialise, execute.\<close>

definition executeWithHandler ::
  "'r payment_handler \<Rightarrow> payment_request \<Rightarrow> pay_event list \<times> 'r tool_output" where
  "executeWithHandler handler args =
     (case initialize handler of
        Inl msg \<Rightarrow> ([NewPaymentHandler, CallInitialize], Failure msg)
      | Inr _ \<Rightarrow>
          (case executePayment handler (url args) (httpMethod args) (body args) (description args) of
             Inl msg \<Rightarrow>
               ([NewPaymentHandler, CallInitialize, CallExecutePayment (url args) (httpMethod args)],
                Failure msg)
           | Inr r \<Rightarrow>
               ([NewPaymentHandler, CallInitialize, CallExecutePayment (url args) (httpMethod args)],
                Returned r)))"

text \<open>
  \<open>if (maxAmount)\<close>: an absent maximum and the number 0 are falsy. The validator is a
  parameter (\<open>Inl msg\<close> when it throws); the \<open>catch\<close> of the tool turns every thrown
  error into a failure object.
\<close>

definition truthy :: "number option \<Rightarrow> bool" where
  "truthy m = (case m of None \<Rightarrow> False | Some a \<Rightarrow> a \<noteq> 0)"

definition paymentRequest ::
  "(number \<Rightarrow> string + validation) \<Rightarrow> 'r payment_handler \<Rightarrow> payment_request
     \<Rightarrow> pay_event list \<times> 'r tool_output" where
  "paymentRequest validate handler args =
     (case maxAmount args of
        None \<Rightarrow> executeWithHandler handler args
      | Some a \<Rightarrow>
          if truthy (Some a) then
            (case validate a of
               Inl msg \<Rightarrow> ([CallValidateTransaction a], Failure msg)
             | Inr validation \<Rightarrow>
                 if \<not> valid validation
                 then ([CallValidateTransaction a], Failure (join '', '' (errors validation)))
                 else (case executeWithHandler handler args of
                         (evs, out) \<Rightarrow> (CallValidateTransaction a # evs, out)))
          else executeWithHandler handler args)"

section \<open>The TAP registry client (tap/registry.ts)\<close>

subsection \<open>JSON values as the client reads them\<close>

text \<open>
  The client casts what \<open>response.json()\<close> gives to an interface type and checks
  nothing, so the model keeps the parsed JSON value and reads it the way JavaScript does.
  A value read from it is \<open>undefined\<close>, a JSON value, or (for \<open>keys\<close> on an array) a
  built-in function.
\<close>

datatype json =
    JNull
  | JBool bool
  | JNum number
  | JStr string
  | JArr "json list"
  | JObj "(string \<times> json) list"

datatype jsval = Undefined | BuiltinFunction | Val json

datatype error =
    FetchError string
  | JsonError
  | TypeError
  | Error string
  | MalformedIssuer

text \<open>An own property of a parsed object: of two members with one name the later wins.\<close>

fun lookup :: "string \<Rightarrow> (string \<times> json) list \<Rightarrow> jsval" where
  "lookup k [] = Undefined"
| "lookup k ((k', v) # kvs) =
     (case lookup k kvs of
        Undefined \<Rightarrow> (if k = k' then Val v else Undefined)
      | later \<Rightarrow> later)"

text \<open>
  \<open>v.k\<close> for the property names the client reads (\<open>detail\<close>, \<open>message\<close>, \<open>agent\<close>,
  \<open>id\<close>, \<open>keys\<close>, \<open>key_id\<close>, \<open>verification_url\<close>, \<open>identity\<close>, \<open>level\<close>,
  \<open>attestation_jwt\<close>, \<open>issued_at\<close>, \<open>expires_at\<close>, \<open>valid\<close>, \<open>error\<close>,
  \<open>identity_level\<close>, \<open>reputation\<close>, \<open>reputation_score\<close>): reading a property of
  \<open>null\<close> or \<open>undefined\<close> throws a TypeError; an object gives its own member or
  \<open>undefined\<close>; an array inherits \<open>keys\<close>, a function; every other read gives
  \<open>undefined\<close>.
\<close>

definition getProp :: "string \<Rightarrow> jsval \<Rightarrow> error + jsval" where
  "getProp k v =
     (case v of
        Undefined \<Rightarrow> Inl TypeError
      | BuiltinFunction \<Rightarrow> Inr Undefined
      | Val JNull \<Rightarrow> Inl TypeError
      | Val (JObj kvs) \<Rightarrow> Inr (lookup k kvs)
      | Val (JArr xs) \<Rightarrow> Inr (if k = ''keys'' then BuiltinFunction else Undefined)
      | Val _ \<Rightarrow> Inr Undefined)"

text \<open>
  \<open>v[0]\<close>: the first element of an array, the first character of a string, the member
  \<open>0\<close> of an object.
\<close>

definition index0 :: "jsval \<Rightarrow> error + jsval" where
  "index0 v =
     (case v of
        Undefined \<Rightarrow> Inl TypeError
      | BuiltinFunction \<Rightarrow> Inr Undefined
      | Val JNull \<Rightarrow> Inl TypeError
      | Val (JArr xs) \<Rightarrow> Inr (case xs of [] \<Rightarrow> Undefined | x # _ \<Rightarrow> Val x)
      | Val (JStr s) \<Rightarrow> Inr (case s of [] \<Rightarrow> Undefined | c # _ \<Rightarrow> Val (JStr [c]))
      | Val (JObj kvs) \<Rightarrow> Inr (lookup ''0'' kvs)
      | Val _ \<Rightarrow> Inr Undefined)"

text \<open>\<open>v.k1.k2...\<close>, stopping at the first read that throws.\<close>

fun path :: "string list \<Rightarrow> jsval \<Rightarrow> error + jsval" where
  "path [] v = Inr v"
| "path (k # ks) v = (case getProp k v of Inl e \<Rightarrow> Inl e | Inr u \<Rightarrow> path ks u)"

text \<open>\<open>v?.k\<close>: \<open>undefined\<close> when \<open>v\<close> is \<open>null\<close> or \<open>undefined\<close>.\<close>

definition optionalProp :: "string \<Rightarrow> jsval \<Rightarrow> error + jsval" where
  "optionalProp k v =
     (if v = Undefined \<or> v = Val JNull then Inr Undefined else getProp k v)"

text \<open>Truthiness of a value, and \<open>v || 'text'\<close>.\<close>

definition truthyVal :: "jsval \<Rightarrow> bool" where
  "truthyVal v =
     (case v of
        Undefined \<Rightarrow> False
      | BuiltinFunction \<Rightarrow> True
      | Val JNull \<Rightarrow> False
      | Val (JBool b) \<Rightarrow> b
      | Val (JNum n) \<Rightarrow> n \<noteq> 0
      | Val (JStr s) \<Rightarrow> s \<noteq> []
      | Val _ \<Rightarrow> True)"

definition orElse :: "jsval \<Rightarrow> string \<Rightarrow> jsval" where
  "orElse v fallback = (if truthyVal v then v else Val (JStr fallback))"

subsection \<open>Transport and local stores\<close>

text \<open>
  What \<open>fetch\<close> followed by \<open>response.json()\<close> can give: the promise of \<open>fetch\<close>
  rejects (no response at all); a response that is not \<open>ok\<close>, with its status text; or
  an \<open>ok\<close> response. The body is the JSON value \<open>json()\<close> resolves to, \<open>None\<close> when
  \<open>json()\<close> rejects.
\<close>

datatype reply =
    FetchRejected string
  | NotOk string "json option"
  | Ok2xx "json option"

text \<open>
  \<open>await response.json().catch(() => ({}))\<close>: an unparseable body is replaced by the
  empty object.
\<close>

definition errorBody :: "json option \<Rightarrow> jsval" where
  "errorBody b = (case b of None \<Rightarrow> Val (JObj []) | Some j \<Rightarrow> Val j)"

text \<open>A request: the URL and the object handed to \<open>JSON.stringify\<close>.\<close>

datatype request = POST string "(string \<times> jsval) list"

datatype TAPIdentityLevel = LevelNone | LevelEmail | LevelKyc | LevelKyb

fun levelString :: "TAPIdentityLevel \<Rightarrow> string" where
  "levelString LevelNone = ''none''"
| "levelString LevelEmail = ''email''"
| "levelString LevelKyc = ''kyc''"
| "levelString LevelKyb = ''kyb''"

text \<open>
  The fields the client fills from a response hold whatever value the response had
  there.
\<close>

record TAPAgentInfo =
  agentId :: jsval
  keyId :: jsval
  publicKey :: string
  registeredAt :: string

record stored_agent =
  agentInfo :: TAPAgentInfo
  storedWalletAddress :: string
  storedName :: string
  storedRegistryUrl :: string

record TAPAttestation =
  identityLevel :: jsval
  attestationJwt :: jsval
  issuedAt :: jsval
  expiresAt :: jsval
  issuer :: string

datatype effect =
    SavePrivateKey string
  | Fetch request
  | SaveAgent stored_agent
  | SaveAttestation TAPAttestation

text \<open>
  The local state the client touches: the keychain slot of the TAP private key, the two
  records of the credential store, and the chronological log of the effects performed.
\<close>

record world =
  keychain :: "string option"
  agentRecord :: "stored_agent option"
  attestationRecord :: "TAPAttestation option"
  effects :: "effect list"

definition fetch :: "request \<Rightarrow> world \<Rightarrow> world" where
  "fetch req w = w\<lparr>effects := effects w @ [Fetch req]\<rparr>"

text \<open>
  Modelled from the spec: \<open>TAPKeychain.savePrivateKey\<close> (tap/keychain.ts is missing), the
  secure store's \<open>put\<close> under the fixed name of the TAP key: the slot is overwritten.
\<close>

definition savePrivateKey :: "string \<Rightarrow> world \<Rightarrow> world" where
  "savePrivateKey hex w = w\<lparr>keychain := Some hex, effects := effects w @ [SavePrivateKey hex]\<rparr>"

text \<open>
  Modelled from the spec: \<open>TAPCredentialManager.saveAgent\<close> (tap/credentials.ts is
  missing). The credential store holds one agent identity per profile; a save replaces
  it.
\<close>

definition saveAgent :: "TAPAgentInfo \<Rightarrow> string \<Rightarrow> string \<Rightarrow> string \<Rightarrow> world \<Rightarrow> world" where
  "saveAgent info address nm registry w =
     (let rec = \<lparr>agentInfo = info, storedWalletAddress = address, storedName = nm,
                 storedRegistryUrl = registry\<rparr>
      in w\<lparr>agentRecord := Some rec, effects := effects w @ [SaveAgent rec]\<rparr>)"

text \<open>
  Modelled from the spec: the invariant of section 3 on an attestation, \<open>expiresAt >
  issuedAt\<close>. The two fields are dates written as text; \<open>instantOf\<close> is the reading of
  such a value as an instant (\<open>None\<close> when it is not a date), a parameter of the model.
  An attestation for which the two instants cannot both be read does not satisfy the
  invariant.
\<close>

definition wellFormed :: "(jsval \<Rightarrow> timestamp option) \<Rightarrow> TAPAttestation \<Rightarrow> bool" where
  "wellFormed instantOf att =
     (case (instantOf (issuedAt att), instantOf (expiresAt att)) of
        (Some issued, Some expires) \<Rightarrow> expires > issued
      | _ \<Rightarrow> False)"

text \<open>
  Modelled from the spec: \<open>TAPCredentialManager.saveAttestation\<close> (tap/credentials.ts
  is missing), the one place where an attestation enters the credential store. Section 3:
  an attestation that violates \<open>expiresAt > issuedAt\<close> on ingestion is rejected with a
  malformed-issuer error and not stored; section 4.2: otherwise the save replaces the one
  attestation of the profile.
\<close>

definition saveAttestation ::
  "(jsval \<Rightarrow> timestamp option) \<Rightarrow> TAPAttestation \<Rightarrow> world \<Rightarrow> (error + unit) \<times> world" where
  "saveAttestation instantOf att w =
     (if wellFormed instantOf att
      then (Inr (), w\<lparr>attestationRecord := Some att,
                      effects := effects w @ [SaveAttestation att]\<rparr>)
      else (Inl MalformedIssuer, w))"

subsection \<open>Strings built by the client\<close>

definition CHAIN_ID :: nat where
  "CHAIN_ID = 8453"

definition CHAIN_ID_string :: string where
  "CHAIN_ID_string = ''8453''"

text \<open>
  \<open>toLowerCase\<close> on the characters of an address: the letters \<open>A\<close> to \<open>Z\<close> are
  replaced by their lower-case forms, every other character is kept.
\<close>

definition toLowerChar :: "char \<Rightarrow> char" where
  "toLowerChar c =
     (case map_of (zip ''ABCDEFGHIJKLMNOPQRSTUVWXYZ'' ''abcdefghijklmnopqrstuvwxyz'') c of
        Some l \<Rightarrow> l
      | None \<Rightarrow> c)"

definition toLowerCase :: "string \<Rightarrow> string" where
  "toLowerCase s = map toLowerChar s"

definition caip10 :: "string \<Rightarrow> string" where
  "caip10 walletAddress = ''eip155:'' @ CHAIN_ID_string @ '':'' @ toLowerCase walletAddress"

definition hexDigit :: "nat \<Rightarrow> char" where
  "hexDigit n = ''0123456789abcdef'' ! (n mod 16)"

text \<open>\<open>Buffer.from(bytes).toString('hex')\<close>: two lower-case digits per byte.\<close>

definition toHex :: "8 word list \<Rightarrow> string" where
  "toHex bytes = concat (map (\<lambda>b. [hexDigit (unat b div 16), hexDigit (unat b mod 16)]) bytes)"

subsection \<open>getChallenge and registerAgent\<close>

text \<open>
  The library and runtime functions of a registration: the Ed25519 public key of a
  private key, already base64-encoded; the wallet's signature of a message under the
  wallet's private key (\<open>Inl\<close> when the wallet cannot be built or signing throws, as it
  does for a message that is not text); and \<open>String(v)\<close> for a value that is not a
  string.
\<close>

record crypto =
  getPublicKey :: "8 word list \<Rightarrow> string"
  signMessage :: "string \<Rightarrow> jsval \<Rightarrow> error + string"
  stringOf :: "jsval \<Rightarrow> string"

text \<open>The message of \<open>new Error(v)\<close>: a string is taken as it is.\<close>

definition errorMessage :: "crypto \<Rightarrow> jsval \<Rightarrow> string" where
  "errorMessage lib v = (case v of Val (JStr s) \<Rightarrow> s | _ \<Rightarrow> stringOf lib v)"

text \<open>
  What one call of \<open>registerAgent\<close> draws from outside: the bytes of
  \<open>randomPrivateKey()\<close>, the registry's answers to the two requests, and the clock.
\<close>

record register_env =
  randomPrivateKey :: "8 word list"
  challengeReply :: reply
  registerReply :: reply
  nowISO :: string

record register_params =
  walletAddress :: string
  walletPrivateKey :: string
  name :: string

record register_result =
  resAgentId :: jsval
  resVerificationUrl :: jsval
  resKeyId :: jsval
  resPublicKey :: string

definition generateKeyPair :: "crypto \<Rightarrow> 8 word list \<Rightarrow> 8 word list \<times> string" where
  "generateKeyPair lib random = (random, getPublicKey lib random)"

text \<open>The two requests of a registration, as \<open>fetch\<close> receives them.\<close>

definition challengeRequest :: "string \<Rightarrow> string \<Rightarrow> request" where
  "challengeRequest registryUrl address =
     POST (registryUrl @ ''/v1/challenge'')
       [(''wallet_address'', Val (JStr (caip10 address))),
        (''chain_id'', Val (JNum (real CHAIN_ID)))]"

definition registerRequest ::
  "string \<Rightarrow> string \<Rightarrow> string \<Rightarrow> string \<Rightarrow> string \<Rightarrow> jsval \<Rightarrow> request" where
  "registerRequest registryUrl caip10Address nm pubKey walletSignature siweMessage =
     POST (registryUrl @ ''/v1/agents/register-wallet'')
       [(''wallet_address'', Val (JStr caip10Address)),
        (''name'', Val (JStr nm)),
        (''public_key'', Val (JStr pubKey)),
        (''algorithm'', Val (JStr ''ed25519'')),
        (''wallet_signature'', Val (JStr walletSignature)),
        (''wallet_message'', siweMessage)]"

text \<open>\<open>getChallenge\<close> hands on whatever the body of a 2xx response parses to.\<close>

definition getChallenge :: "string \<Rightarrow> reply \<Rightarrow> string \<Rightarrow> world \<Rightarrow> (error + jsval) \<times> world" where
  "getChallenge registryUrl rep address w =
     (let w1 = fetch (challengeRequest registryUrl address) w
      in case rep of
           FetchRejected m \<Rightarrow> (Inl (FetchError m), w1)
         | NotOk statusText _ \<Rightarrow> (Inl (Error (''Failed to get challenge: '' @ statusText)), w1)
         | Ok2xx None \<Rightarrow> (Inl JsonError, w1)
         | Ok2xx (Some challenge) \<Rightarrow> (Inr (Val challenge), w1))"

text \<open>\<open>data.agent.keys[0].key_id\<close>.\<close>

definition keyIdOf :: "jsval \<Rightarrow> error + jsval" where
  "keyIdOf data =
     (case path [''agent'', ''keys''] data of
        Inl e \<Rightarrow> Inl e
      | Inr keys \<Rightarrow>
          (case index0 keys of
             Inl e \<Rightarrow> Inl e
           | Inr key \<Rightarrow> getProp ''key_id'' key))"

text \<open>
  The lines of \<open>registerAgent\<close> after a 2xx registration response was parsed: the
  arguments of \<open>saveAgent\<close> are evaluated (either read may throw), the agent is saved,
  and the result object is built.
\<close>

definition registered ::
  "string \<Rightarrow> register_env \<Rightarrow> register_params \<Rightarrow> string \<Rightarrow> jsval \<Rightarrow> world
     \<Rightarrow> (error + register_result) \<times> world" where
  "registered registryUrl env params pubKey data w =
     (case path [''agent'', ''id''] data of
        Inl e \<Rightarrow> (Inl e, w)
      | Inr agent_id \<Rightarrow>
          (case keyIdOf data of
             Inl e \<Rightarrow> (Inl e, w)
           | Inr key_id \<Rightarrow>
               (let w' = saveAgent \<lparr>agentId = agent_id, keyId = key_id,
                                    publicKey = pubKey, registeredAt = nowISO env\<rparr>
                           (caip10 (walletAddress params)) (name params) registryUrl w
                in case getProp ''verification_url'' data of
                     Inl e \<Rightarrow> (Inl e, w')
                   | Inr verification_url \<Rightarrow>
                       (Inr \<lparr>resAgentId = agent_id,
                             resVerificationUrl = verification_url,
                             resKeyId = key_id,
                             resPublicKey = pubKey\<rparr>, w'))))"

definition registerAgent ::
  "string \<Rightarrow> crypto \<Rightarrow> register_env \<Rightarrow> register_params \<Rightarrow> world
     \<Rightarrow> (error + register_result) \<times> world" where
  "registerAgent registryUrl lib env params w =
     (case generateKeyPair lib (randomPrivateKey env) of
        (privateKey, pubKey) \<Rightarrow>
          (let w1 = savePrivateKey (toHex privateKey) w;
               caip10Address = caip10 (walletAddress params)
           in case getChallenge registryUrl (challengeReply env) (walletAddress params) w1 of
                (Inl e, w2) \<Rightarrow> (Inl e, w2)
              | (Inr challenge, w2) \<Rightarrow>
                  (case getProp ''message'' challenge of
                     Inl e \<Rightarrow> (Inl e, w2)
                   | Inr siweMessage \<Rightarrow>
                       (case signMessage lib (walletPrivateKey params) siweMessage of
                          Inl e \<Rightarrow> (Inl e, w2)
                        | Inr walletSignature \<Rightarrow>
                            (let w3 = fetch (registerRequest registryUrl caip10Address
                                               (name params) pubKey walletSignature
                                               siweMessage) w2
                             in case registerReply env of
                                  FetchRejected m \<Rightarrow> (Inl (FetchError m), w3)
                                | NotOk statusText b \<Rightarrow>
                                    (case getProp ''detail'' (errorBody b) of
                                       Inl e \<Rightarrow> (Inl e, w3)
                                     | Inr detail \<Rightarrow>
                                         (Inl (Error (errorMessage lib
                                                 (orElse detail
                                                    (''Registration failed: '' @ statusText)))),
                                          w3))
                                | Ok2xx None \<Rightarrow> (Inl JsonError, w3)
                                | Ok2xx (Some data) \<Rightarrow>
                                    registered registryUrl env params pubKey (Val data) w3)))))"

subsection \<open>completeVerificationDemo\<close>

text \<open>
  \<open>TAPVerificationResult\<close>: \<open>{status: 'failed', error}\<close> or \<open>{status: 'verified',
  agentId, identityLevel, reputationScore}\<close>.
\<close>

datatype TAPVerificationResult =
    VerificationFailed jsval
  | Verified string jsval number

definition verifyDemoRequest :: "string \<Rightarrow> string \<Rightarrow> TAPIdentityLevel \<Rightarrow> request" where
  "verifyDemoRequest registryUrl agent lvl =
     POST (registryUrl @ ''/v1/agents/'' @ agent @ ''/verify-demo?level='' @ levelString lvl) []"

text \<open>
  The attestation object built from a parsed 2xx body: the four reads of
  \<open>data.agent.identity\<close>, the first of which throws when \<open>data\<close>, \<open>data.agent\<close> or
  \<open>data.agent.identity\<close> is \<open>null\<close> or missing.
\<close>

definition attestationOf :: "string \<Rightarrow> jsval \<Rightarrow> error + TAPAttestation" where
  "attestationOf registryUrl data =
     (case path [''agent'', ''identity'', ''level''] data of
        Inl e \<Rightarrow> Inl e
      | Inr lv \<Rightarrow>
          (case path [''agent'', ''identity'', ''attestation_jwt''] data of
             Inl e \<Rightarrow> Inl e
           | Inr jwt \<Rightarrow>
               (case path [''agent'', ''identity'', ''issued_at''] data of
                  Inl e \<Rightarrow> Inl e
                | Inr issued \<Rightarrow>
                    (case path [''agent'', ''identity'', ''expires_at''] data of
                       Inl e \<Rightarrow> Inl e
                     | Inr expires \<Rightarrow>
                         Inr \<lparr>identityLevel = lv, attestationJwt = jwt, issuedAt = issued,
                              expiresAt = expires, issuer = registryUrl\<rparr>))))"

definition completeVerificationDemo ::
  "string \<Rightarrow> (jsval \<Rightarrow> timestamp option) \<Rightarrow> reply \<Rightarrow> string \<Rightarrow> TAPIdentityLevel \<Rightarrow> world
     \<Rightarrow> (error + TAPVerificationResult) \<times> world" where
  "completeVerificationDemo registryUrl instantOf rep agent lvl w =
     (let w1 = fetch (verifyDemoRequest registryUrl agent lvl) w
      in case rep of
           FetchRejected m \<Rightarrow> (Inl (FetchError m), w1)
         | NotOk statusText b \<Rightarrow>
             (case getProp ''detail'' (errorBody b) of
                Inl e \<Rightarrow> (Inl e, w1)
              | Inr detail \<Rightarrow>
                  (Inr (VerificationFailed (orElse detail ''Verification failed'')), w1))
         | Ok2xx None \<Rightarrow> (Inl JsonError, w1)
         | Ok2xx (Some data) \<Rightarrow>
             (case attestationOf registryUrl (Val data) of
                Inl e \<Rightarrow> (Inl e, w1)
              | Inr attestation \<Rightarrow>
                  (case saveAttestation instantOf attestation w1 of
                     (Inl e, w2) \<Rightarrow> (Inl e, w2)
                   | (Inr _, w2) \<Rightarrow>
                       (Inr (Verified agent (identityLevel attestation) 50), w2))))"

subsection \<open>verifyAgent and getReputation\<close>

record verify_result =
  isValid :: bool
  verifiedLevel :: jsval
  reputationScore :: jsval
  verifyError :: jsval

text \<open>
  The attestation argument is the stored token, which is whatever value the registry had
  put in \<open>attestation_jwt\<close>.
\<close>

definition verifyRequest :: "string \<Rightarrow> string \<Rightarrow> jsval \<Rightarrow> request" where
  "verifyRequest registryUrl address attestation =
     POST (registryUrl @ ''/v1/verify'')
       [(''wallet_address'', Val (JStr address)), (''attestation'', attestation)]"

text \<open>
  The lines of \<open>verifyAgent\<close> after a 2xx body was parsed. \<open>data.valid\<close> throws on a
  body that is \<open>null\<close>; after it no read can throw.
\<close>

definition verified :: "jsval \<Rightarrow> error + verify_result" where
  "verified data =
     (case getProp ''valid'' data of
        Inl e \<Rightarrow> Inl e
      | Inr v \<Rightarrow>
          if \<not> truthyVal v
          then (case getProp ''error'' data of
                  Inl e \<Rightarrow> Inl e
                | Inr err \<Rightarrow>
                    Inr \<lparr>isValid = False, verifiedLevel = Undefined,
                         reputationScore = Undefined, verifyError = err\<rparr>)
          else (case getProp ''identity_level'' data of
                  Inl e \<Rightarrow> Inl e
                | Inr lv \<Rightarrow>
                    (case getProp ''reputation'' data of
                       Inl e \<Rightarrow> Inl e
                     | Inr rep \<Rightarrow>
                         (case optionalProp ''reputation_score'' rep of
                            Inl e \<Rightarrow> Inl e
                          | Inr score \<Rightarrow>
                              Inr \<lparr>isValid = True, verifiedLevel = lv,
                                   reputationScore = score, verifyError = Undefined\<rparr>))))"

definition verifyAgent ::
  "string \<Rightarrow> reply \<Rightarrow> string \<Rightarrow> jsval \<Rightarrow> world \<Rightarrow> (error + verify_result) \<times> world" where
  "verifyAgent registryUrl rep address attestation w =
     (let w1 = fetch (verifyRequest registryUrl address attestation) w
      in case rep of
           FetchRejected m \<Rightarrow> (Inl (FetchError m), w1)
         | NotOk statusText _ \<Rightarrow>
             (Inr \<lparr>isValid = False, verifiedLevel = Undefined, reputationScore = Undefined,
                   verifyError = Val (JStr (''Verification failed: '' @ statusText))\<rparr>, w1)
         | Ok2xx None \<Rightarrow> (Inl JsonError, w1)
         | Ok2xx (Some data) \<Rightarrow> (verified (Val data), w1))"

record reputation =
  totalTransactions :: nat
  uniqueMerchants :: nat
  disputeRate :: number
  repScore :: jsval

text \<open>
  Modelled from the spec: \<open>TAPCredentialManager.loadAgent\<close> and \<open>loadAttestation\<close>
  (tap/credentials.ts is missing) give the stored record or absent. \<open>getReputation\<close>
  calls them and \<open>verifyAgent\<close> inside a \<open>try\<close> whose \<open>catch\<close> returns \<open>null\<close>;
  its parameter is not used. \<open>result.reputationScore || 0\<close> gives the number 0 for a
  falsy score.
\<close>

definition getReputation ::
  "string \<Rightarrow> reply \<Rightarrow> string \<Rightarrow> world \<Rightarrow> reputation option \<times> world" where
  "getReputation registryUrl rep agent w =
     (case (agentRecord w, attestationRecord w) of
        (Some a, Some att) \<Rightarrow>
          (case verifyAgent registryUrl rep (storedWalletAddress a) (attestationJwt att) w of
             (Inl _, w1) \<Rightarrow> (None, w1)
           | (Inr result, w1) \<Rightarrow>
               if \<not> isValid result then (None, w1)
               else (Some \<lparr>totalTransactions = 0, uniqueMerchants = 0, disputeRate = 0,
                           repScore = (if truthyVal (reputationScore result)
                                       then reputationScore result else Val (JNum 0))\<rparr>,
                     w1))
      | _ \<Rightarrow> (None, w))"

section \<open>The balance checker (wallet/balance.ts)\<close>

text \<open>
  The three read calls of the USDC contract, each of which may throw with a message, and
  the two library functions applied to their results: \<open>ethers.formatUnits\<close> (which may
  throw too) and \<open>parseFloat\<close>, whose \<open>NaN\<close> is \<open>None\<close>.
\<close>

record usdc_contract =
  balanceOf :: "string \<Rightarrow> string + nat"
  decimals :: "string + nat"
  symbol :: "string + string"

record numerics =
  formatUnits :: "nat \<Rightarrow> nat \<Rightarrow> string + string"
  parseFloat :: "string \<Rightarrow> number option"

record BalanceInfo =
  address :: string
  balance :: string
  balanceDecimals :: nat
  balanceSymbol :: string

definition getBalance :: "usdc_contract \<Rightarrow> numerics \<Rightarrow> string \<Rightarrow> error + BalanceInfo" where
  "getBalance contract lib addr =
     (case balanceOf contract addr of
        Inl m \<Rightarrow> Inl (Error (''Failed to fetch balance: '' @ m))
      | Inr bal \<Rightarrow>
          (case decimals contract of
             Inl m \<Rightarrow> Inl (Error (''Failed to fetch balance: '' @ m))
           | Inr dec \<Rightarrow>
               (case symbol contract of
                  Inl m \<Rightarrow> Inl (Error (''Failed to fetch balance: '' @ m))
                | Inr sy \<Rightarrow>
                    (case formatUnits lib bal dec of
                       Inl m \<Rightarrow> Inl (Error (''Failed to fetch balance: '' @ m))
                     | Inr formattedBalance \<Rightarrow>
                         Inr \<lparr>address = addr, balance = formattedBalance,
                              balanceDecimals = dec, balanceSymbol = sy\<rparr>))))"

text \<open>\<open>x >= y\<close> where \<open>x\<close> may be \<open>NaN\<close>: every comparison with \<open>NaN\<close> is false.\<close>

definition geNumber :: "number option \<Rightarrow> number \<Rightarrow> bool" where
  "geNumber x y = (case x of None \<Rightarrow> False | Some v \<Rightarrow> v \<ge> y)"

definition hasSufficientBalance ::
  "usdc_contract \<Rightarrow> numerics \<Rightarrow> string \<Rightarrow> number \<Rightarrow> error + bool" where
  "hasSufficientBalance contract lib addr requiredAmount =
     (case getBalance contract lib addr of
        Inr info \<Rightarrow> Inr (geNumber (parseFloat lib (balance info)) requiredAmount)
      | Inl _ \<Rightarrow> Inr False)"

section \<open>Properties of the spend-limit validator\<close>

lemma dailyTotal_sum:
  "dailyTotal now ledger =
     sum_list (map entry_amount
       (filter (\<lambda>e. entry_status e = Approved \<and> inWindow now e) ledger))"
  by (induction ledger) simp_all

text \<open>
  Claim C2. For every amount \<open>a\<close>, \<open>validateTransaction a\<close> is invalid exactly when
  \<open>a \<le> 0\<close>, or \<open>a\<close> exceeds \<open>maxTransactionAmount\<close>, or the daily total plus \<open>a\<close>
  exceeds \<open>dailyLimit\<close>; it signals \<open>autoApprove\<close> exactly when it is valid and
  \<open>a \<le> autoApproveUnder\<close>; and the daily total is the sum of the approved entries whose
  timestamp lies in the 24 hours before the current instant, nothing else.
\<close>

theorem validateTransaction_verdict:
  "(\<not> valid (validateTransaction cfg ledger now a) \<longleftrightarrow>
      a \<le> 0 \<or> a > maxTransactionAmount cfg \<or> dailyTotal now ledger + a > dailyLimit cfg)
   \<and> (autoApprove (validateTransaction cfg ledger now a) \<longleftrightarrow>
      valid (validateTransaction cfg ledger now a) \<and> a \<le> autoApproveUnder cfg)
   \<and> dailyTotal now ledger =
      sum_list (map entry_amount
        (filter (\<lambda>e. entry_status e = Approved \<and> now - dayMs \<le> entry_timestamp e
                      \<and> entry_timestamp e \<le> now) ledger))"
proof -
  have v: "\<not> valid (validateTransaction cfg ledger now a) \<longleftrightarrow>
      a \<le> 0 \<or> a > maxTransactionAmount cfg \<or> dailyTotal now ledger + a > dailyLimit cfg"
    by (simp add: validateTransaction_def Let_def)
  have au: "autoApprove (validateTransaction cfg ledger now a) \<longleftrightarrow>
      valid (validateTransaction cfg ledger now a) \<and> a \<le> autoApproveUnder cfg"
    by (simp add: validateTransaction_def Let_def)
  have d: "dailyTotal now ledger =
      sum_list (map entry_amount
        (filter (\<lambda>e. entry_status e = Approved \<and> now - dayMs \<le> entry_timestamp e
                      \<and> entry_timestamp e \<le> now) ledger))"
    using dailyTotal_sum [of now ledger] by (simp add: inWindow_def)
  from v au d show ?thesis by blast
qed

text \<open>
  The scenario of the specification: 18 already approved in the window (a failed entry
  and an approved one from long ago do not count), a daily limit of 20, a payment of 5.
\<close>

theorem validateTransaction_verdict_witness:
  "dailyTotal 100000000
     [\<lparr>entry_timestamp = 99000000, entry_amount = 18, entry_status = Approved,
       entry_descriptor = ''api''\<rparr>,
      \<lparr>entry_timestamp = 99500000, entry_amount = 7, entry_status = Failed,
       entry_descriptor = ''api''\<rparr>,
      \<lparr>entry_timestamp = 1000, entry_amount = 9, entry_status = Approved,
       entry_descriptor = ''old''\<rparr>] = 18
   \<and> \<not> valid (validateTransaction
        \<lparr>maxTransactionAmount = 10, autoApproveUnder = 0.1, dailyLimit = 20\<rparr>
        [\<lparr>entry_timestamp = 99000000, entry_amount = 18, entry_status = Approved,
          entry_descriptor = ''api''\<rparr>,
         \<lparr>entry_timestamp = 99500000, entry_amount = 7, entry_status = Failed,
          entry_descriptor = ''api''\<rparr>,
         \<lparr>entry_timestamp = 1000, entry_amount = 9, entry_status = Approved,
          entry_descriptor = ''old''\<rparr>]
        100000000 5)"
  using validateTransaction_verdict
    [of "\<lparr>maxTransactionAmount = 10, autoApproveUnder = 0.1, dailyLimit = 20\<rparr>"
        "[\<lparr>entry_timestamp = 99000000, entry_amount = 18, entry_status = Approved,
           entry_descriptor = ''api''\<rparr>,
          \<lparr>entry_timestamp = 99500000, entry_amount = 7, entry_status = Failed,
           entry_descriptor = ''api''\<rparr>,
          \<lparr>entry_timestamp = 1000, entry_amount = 9, entry_status = Approved,
           entry_descriptor = ''old''\<rparr>]"
        100000000 5]
  by (simp add: dayMs_def)

section \<open>Properties of the payment tool\<close>

lemma executeWithHandler_no_validation:
  "CallValidateTransaction a \<notin> set (fst (executeWithHandler handler args))"
  by (simp add: executeWithHandler_def split: sum.splits)

text \<open>
  When the validation is run and rejects, the tool stops there: the only thing it has done
  is the validation call, and the failure carries the joined error messages.
\<close>

lemma paymentRequest_rejection_fails_fast:
  assumes "maxAmount args = Some a" and "a \<noteq> 0" and "validate a = Inr v" and "\<not> valid v"
  shows "paymentRequest validate handler args =
           ([CallValidateTransaction a], Failure (join '', '' (errors v)))"
  using assms by (simp add: paymentRequest_def truthy_def)

text \<open>
  Claim C1. A payment request that declares a maximum amount which the spend-limit
  validation rejects should end in a failure before a handler is constructed. With the
  declared maximum 0, which the validator rejects as non-positive, the tool does not call
  the validator: it constructs the handler, initialises it and executes the payment.
\<close>

theorem paymentRequest_zero_max_not_validated:
  "\<not> valid (validateTransaction
        \<lparr>maxTransactionAmount = 10, autoApproveUnder = 0.1, dailyLimit = 50\<rparr> [] 0 0)
   \<and> paymentRequest
        (\<lambda>a. Inr (validateTransaction
                    \<lparr>maxTransactionAmount = 10, autoApproveUnder = 0.1, dailyLimit = 50\<rparr> [] 0 a))
        \<lparr>initialize = Inr (), executePayment = (\<lambda>u m b d. Inr ''paid'')\<rparr>
        \<lparr>url = ''https://api.example.com/data'', httpMethod = ''GET'', description = ''data'',
          maxAmount = Some 0, body = None\<rparr>
      = ([NewPaymentHandler, CallInitialize,
          CallExecutePayment ''https://api.example.com/data'' ''GET''],
         Returned ''paid'')"
  by (simp add: validateTransaction_def paymentRequest_def truthy_def executeWithHandler_def)

text \<open>
  Claim C9. The validation runs only for a truthy \<open>maxAmount\<close>: with no maximum, or with
  the maximum 0, the tool does exactly what the handler lines do, and a validation call
  occurs among the tool's steps exactly when \<open>maxAmount\<close> is truthy.
\<close>

theorem paymentRequest_validates_only_truthy_max:
  "((maxAmount args = None \<or> maxAmount args = Some 0) \<longrightarrow>
       paymentRequest validate handler args = executeWithHandler handler args)
   \<and> ((\<exists>a. CallValidateTransaction a \<in> set (fst (paymentRequest validate handler args)))
        \<longleftrightarrow> truthy (maxAmount args))"
proof -
  have skip: "(maxAmount args = None \<or> maxAmount args = Some 0) \<longrightarrow>
       paymentRequest validate handler args = executeWithHandler handler args"
    by (auto simp: paymentRequest_def truthy_def)
  have run: "(\<exists>a. CallValidateTransaction a \<in> set (fst (paymentRequest validate handler args)))
        \<longleftrightarrow> truthy (maxAmount args)"
  proof (cases "maxAmount args")
    case None
    then show ?thesis
      by (simp add: paymentRequest_def truthy_def executeWithHandler_no_validation)
  next
    case (Some a)
    show ?thesis
    proof (cases "a = 0")
      case True
      with Some show ?thesis
        by (simp add: paymentRequest_def truthy_def executeWithHandler_no_validation)
    next
      case False
      with Some have "CallValidateTransaction a \<in> set (fst (paymentRequest validate handler args))"
        by (simp add: paymentRequest_def truthy_def split: sum.splits prod.splits)
      with Some False show ?thesis by (auto simp: truthy_def)
    qed
  qed
  from skip run show ?thesis by blast
qed

theorem paymentRequest_validates_only_truthy_max_witness:
  "paymentRequest (\<lambda>a. Inl ''config unreadable'')
      \<lparr>initialize = Inr (), executePayment = (\<lambda>u m b d. Inr ''served'')\<rparr>
      \<lparr>url = ''https://api.example.com/quote'', httpMethod = ''POST'', description = ''quote'',
        maxAmount = Some 0, body = Some ''{}''\<rparr>
    = ([NewPaymentHandler, CallInitialize,
        CallExecutePayment ''https://api.example.com/quote'' ''POST''],
       Returned ''served'')"
  using paymentRequest_validates_only_truthy_max
    [of "\<lparr>url = ''https://api.example.com/quote'', httpMethod = ''POST'', description = ''quote'',
          maxAmount = Some 0, body = Some ''{}''\<rparr>"
        "\<lambda>a. Inl ''config unreadable''"
        "\<lparr>initialize = Inr (), executePayment = (\<lambda>u m b d. Inr ''served'')\<rparr>"]
  by (simp add: executeWithHandler_def)

section \<open>Properties of the balance checker\<close>

text \<open>
  Claim C10. \<open>hasSufficientBalance\<close> never throws: it always returns a boolean; the
  boolean is true exactly when the balance was fetched and its parsed value is at least
  the required amount; and it is false whenever the fetch failed.
\<close>

theorem hasSufficientBalance_never_throws:
  "(\<exists>b. hasSufficientBalance contract lib addr required = Inr b)
   \<and> (hasSufficientBalance contract lib addr required = Inr True \<longleftrightarrow>
        (\<exists>info v. getBalance contract lib addr = Inr info
                 \<and> parseFloat lib (balance info) = Some v \<and> v \<ge> required))
   \<and> ((\<exists>e. getBalance contract lib addr = Inl e) \<longrightarrow>
        hasSufficientBalance contract lib addr required = Inr False)"
  by (cases "getBalance contract lib addr")
     (auto simp: hasSufficientBalance_def geNumber_def split: option.splits)

theorem hasSufficientBalance_never_throws_witness:
  "hasSufficientBalance
      \<lparr>balanceOf = (\<lambda>a. Inl ''could not detect network''), decimals = Inr 6,
        symbol = Inr ''USDC''\<rparr>
      \<lparr>formatUnits = (\<lambda>b d. Inr ''0.0''), parseFloat = (\<lambda>s. Some 0)\<rparr>
      ''0x1111111111111111111111111111111111111111'' 2.5
    = Inr False"
  using hasSufficientBalance_never_throws
    [of "\<lparr>balanceOf = (\<lambda>a. Inl ''could not detect network''), decimals = Inr 6,
          symbol = Inr ''USDC''\<rparr>"
        "\<lparr>formatUnits = (\<lambda>b d. Inr ''0.0''), parseFloat = (\<lambda>s. Some 0)\<rparr>"
        "''0x1111111111111111111111111111111111111111''" "2.5"]
  by (simp add: getBalance_def)

section \<open>Properties of the registry client\<close>

subsection \<open>Reads and store operations\<close>

lemma getProp_not_null:
  "j \<noteq> JNull \<Longrightarrow> \<exists>u. getProp k (Val j) = Inr u"
  by (cases j) (simp_all add: getProp_def)


lemma optionalProp_total:
  "\<exists>u. optionalProp k v = Inr u"
proof (cases v)
  case Undefined
  then show ?thesis by (simp add: optionalProp_def)
next
  case BuiltinFunction
  then show ?thesis by (simp add: optionalProp_def getProp_def)
next
  case (Val j)
  then show ?thesis
    using getProp_not_null [of j k] by (auto simp: optionalProp_def)
qed

lemma fetch_stores [simp]:
  "keychain (fetch r w) = keychain w"
  "agentRecord (fetch r w) = agentRecord w"
  "attestationRecord (fetch r w) = attestationRecord w"
  "effects (fetch r w) = effects w @ [Fetch r]"
  by (simp_all add: fetch_def)

lemma savePrivateKey_stores [simp]:
  "keychain (savePrivateKey k w) = Some k"
  "agentRecord (savePrivateKey k w) = agentRecord w"
  "attestationRecord (savePrivateKey k w) = attestationRecord w"
  "effects (savePrivateKey k w) = effects w @ [SavePrivateKey k]"
  by (simp_all add: savePrivateKey_def)

lemma saveAgent_stores [simp]:
  "keychain (saveAgent i a n r w) = keychain w"
  "agentRecord (saveAgent i a n r w) =
     Some \<lparr>agentInfo = i, storedWalletAddress = a, storedName = n, storedRegistryUrl = r\<rparr>"
  "attestationRecord (saveAgent i a n r w) = attestationRecord w"
  "effects (saveAgent i a n r w) = effects w @
     [SaveAgent \<lparr>agentInfo = i, storedWalletAddress = a, storedName = n,
                 storedRegistryUrl = r\<rparr>]"
  by (simp_all add: saveAgent_def Let_def)

lemma saveAttestation_accepts:
  "wellFormed instantOf att \<Longrightarrow>
     fst (saveAttestation instantOf att w) = Inr ()
   \<and> keychain (snd (saveAttestation instantOf att w)) = keychain w
   \<and> agentRecord (snd (saveAttestation instantOf att w)) = agentRecord w
   \<and> attestationRecord (snd (saveAttestation instantOf att w)) = Some att
   \<and> effects (snd (saveAttestation instantOf att w)) = effects w @ [SaveAttestation att]"
  by (simp add: saveAttestation_def)

lemma saveAttestation_rejects:
  "\<not> wellFormed instantOf att \<Longrightarrow>
     saveAttestation instantOf att w = (Inl MalformedIssuer, w)"
  by (simp add: saveAttestation_def)

subsection \<open>verifyAgent\<close>

lemma verified_not_null:
  assumes "j \<noteq> JNull"
  shows "\<exists>v r. getProp ''valid'' (Val j) = Inr v \<and> verified (Val j) = Inr r
               \<and> (isValid r \<longleftrightarrow> truthyVal v)"
proof -
  from assms obtain v where v: "getProp ''valid'' (Val j) = Inr v"
    using getProp_not_null by blast
  from assms obtain err where err: "getProp ''error'' (Val j) = Inr err"
    using getProp_not_null by blast
  from assms obtain lv where lv: "getProp ''identity_level'' (Val j) = Inr lv"
    using getProp_not_null by blast
  from assms obtain rp where rp: "getProp ''reputation'' (Val j) = Inr rp"
    using getProp_not_null by blast
  obtain sc where sc: "optionalProp ''reputation_score'' rp = Inr sc"
    using optionalProp_total by blast
  show ?thesis
    using v err lv rp sc by (simp add: verified_def)
qed

text \<open>
  Claim C3, as stated, fails: \<open>verifyAgent\<close> has no \<open>try\<close> around \<open>fetch\<close>, so a
  failed fetch is a rejected promise that leaves \<open>verifyAgent\<close> as an exception.
\<close>

theorem verifyAgent_fetch_failure_propagates:
  "fst (verifyAgent ''https://tap-registry.visa.com/v1'' (FetchRejected ''fetch failed'')
         ''0xabc'' (Val (JStr ''jwt''))
         \<lparr>keychain = None, agentRecord = None, attestationRecord = None, effects = []\<rparr>)
   = Inl (FetchError ''fetch failed'')"
  by (simp add: verifyAgent_def)

text \<open>
  Claim C3, amended. For every response that is not 2xx, \<open>verifyAgent\<close> returns a value
  whose \<open>valid\<close> field is false. For every 2xx response whose parsed body is not
  \<open>null\<close> it returns a value whose \<open>valid\<close> field is true exactly when the body's
  \<open>valid\<close> is truthy, so a body whose \<open>valid\<close> is false gives \<open>valid: false\<close>. It
  catches nothing: a failed fetch, and a 2xx body that cannot be parsed, leave it as
  exceptions.
\<close>

theorem verifyAgent_outcomes:
  "(\<forall>statusText b. rep = NotOk statusText b \<longrightarrow>
       (\<exists>r. fst (verifyAgent registryUrl rep addr att w) = Inr r \<and> \<not> isValid r))
   \<and> (\<forall>j. rep = Ok2xx (Some j) \<and> j \<noteq> JNull \<longrightarrow>
       (\<exists>v r. getProp ''valid'' (Val j) = Inr v
              \<and> fst (verifyAgent registryUrl rep addr att w) = Inr r
              \<and> (isValid r \<longleftrightarrow> truthyVal v)))
   \<and> (\<forall>m. rep = FetchRejected m \<longrightarrow>
       fst (verifyAgent registryUrl rep addr att w) = Inl (FetchError m))
   \<and> (rep = Ok2xx None \<longrightarrow>
       fst (verifyAgent registryUrl rep addr att w) = Inl JsonError)"
proof (cases rep)
  case (FetchRejected m)
  then show ?thesis by (simp add: verifyAgent_def)
next
  case (NotOk st b)
  then show ?thesis by (simp add: verifyAgent_def)
next
  case (Ok2xx d)
  show ?thesis
  proof (cases d)
    case None
    with Ok2xx show ?thesis by (simp add: verifyAgent_def)
  next
    case (Some j)
    with Ok2xx verified_not_null [of j] show ?thesis
      by (auto simp: verifyAgent_def Let_def)
  qed
qed

text \<open>
  A 503 without a body; a 200 whose body says \<open>valid: false\<close> with an error text; an
  unreachable registry; and a 200 whose body is not JSON.
\<close>

theorem verifyAgent_outcomes_witness:
  "(\<exists>r. fst (verifyAgent ''https://tap-registry.visa.com/v1''
              (NotOk ''Service Unavailable'' None) ''0xabc'' (Val (JStr ''jwt''))
              \<lparr>keychain = None, agentRecord = None, attestationRecord = None,
                effects = []\<rparr>) = Inr r
        \<and> \<not> isValid r)
   \<and> fst (verifyAgent ''https://tap-registry.visa.com/v1''
            (Ok2xx (Some (JObj [(''valid'', JBool False), (''error'', JStr ''expired'')])))
            ''0xabc'' (Val (JStr ''jwt''))
            \<lparr>keychain = None, agentRecord = None, attestationRecord = None, effects = []\<rparr>)
     = Inr \<lparr>isValid = False, verifiedLevel = Undefined, reputationScore = Undefined,
             verifyError = Val (JStr ''expired'')\<rparr>
   \<and> fst (verifyAgent ''https://tap-registry.visa.com/v1'' (FetchRejected ''fetch failed'')
            ''0xabc'' (Val (JStr ''jwt''))
            \<lparr>keychain = None, agentRecord = None, attestationRecord = None, effects = []\<rparr>)
     = Inl (FetchError ''fetch failed'')
   \<and> fst (verifyAgent ''https://tap-registry.visa.com/v1'' (Ok2xx None)
            ''0xabc'' (Val (JStr ''jwt''))
            \<lparr>keychain = None, agentRecord = None, attestationRecord = None, effects = []\<rparr>)
     = Inl JsonError"
  using verifyAgent_outcomes [of "NotOk ''Service Unavailable'' None"
      "''https://tap-registry.visa.com/v1''" "''0xabc''" "Val (JStr ''jwt'')"
      "\<lparr>keychain = None, agentRecord = None, attestationRecord = None, effects = []\<rparr>"]
    verifyAgent_outcomes
      [of "Ok2xx (Some (JObj [(''valid'', JBool False), (''error'', JStr ''expired'')]))"
      "''https://tap-registry.visa.com/v1''" "''0xabc''" "Val (JStr ''jwt'')"
      "\<lparr>keychain = None, agentRecord = None, attestationRecord = None, effects = []\<rparr>"]
    verifyAgent_outcomes [of "FetchRejected ''fetch failed''"
      "''https://tap-registry.visa.com/v1''" "''0xabc''" "Val (JStr ''jwt'')"
      "\<lparr>keychain = None, agentRecord = None, attestationRecord = None, effects = []\<rparr>"]
    verifyAgent_outcomes [of "Ok2xx None"
      "''https://tap-registry.visa.com/v1''" "''0xabc''" "Val (JStr ''jwt'')"
      "\<lparr>keychain = None, agentRecord = None, attestationRecord = None, effects = []\<rparr>"]
  by (simp add: verifyAgent_def verified_def getProp_def truthyVal_def)

text \<open>
  The caller inside the client, \<open>getReputation\<close>, is where the exception stops: a failed
  fetch gives \<open>null\<close>.
\<close>

lemma getReputation_swallows_fetch_failure:
  "fst (getReputation registryUrl (FetchRejected m) agent w) = None"
  by (simp add: getReputation_def verifyAgent_def split: option.splits)

subsection \<open>completeVerificationDemo\<close>

lemma completeVerificationDemo_accepted:
  assumes "attestationOf registryUrl (Val j) = Inr att" and "wellFormed instantOf att"
  shows "completeVerificationDemo registryUrl instantOf (Ok2xx (Some j)) agent lvl w =
           (Inr (Verified agent (identityLevel att) 50),
            (fetch (verifyDemoRequest registryUrl agent lvl) w)
              \<lparr>attestationRecord := Some att,
                effects := effects w @
                  [Fetch (verifyDemoRequest registryUrl agent lvl), SaveAttestation att]\<rparr>)"
  using assms by (simp add: completeVerificationDemo_def Let_def saveAttestation_def)

lemma completeVerificationDemo_malformed:
  assumes "attestationOf registryUrl (Val j) = Inr att" and "\<not> wellFormed instantOf att"
  shows "completeVerificationDemo registryUrl instantOf (Ok2xx (Some j)) agent lvl w =
           (Inl MalformedIssuer, fetch (verifyDemoRequest registryUrl agent lvl) w)"
  using assms by (simp add: completeVerificationDemo_def Let_def saveAttestation_def)

lemma completeVerificationDemo_unreadable:
  assumes "attestationOf registryUrl (Val j) = Inl e"
  shows "completeVerificationDemo registryUrl instantOf (Ok2xx (Some j)) agent lvl w =
           (Inl e, fetch (verifyDemoRequest registryUrl agent lvl) w)"
  using assms by (simp add: completeVerificationDemo_def Let_def)

lemma completeVerificationDemo_no_body:
  "snd (completeVerificationDemo registryUrl instantOf (FetchRejected m) agent lvl w)
     = fetch (verifyDemoRequest registryUrl agent lvl) w"
  "snd (completeVerificationDemo registryUrl instantOf (NotOk st b) agent lvl w)
     = fetch (verifyDemoRequest registryUrl agent lvl) w"
  "snd (completeVerificationDemo registryUrl instantOf (Ok2xx None) agent lvl w)
     = fetch (verifyDemoRequest registryUrl agent lvl) w"
  by (simp_all add: completeVerificationDemo_def Let_def split: sum.splits)

text \<open>
  The world after the call: the request alone, unless an attestation was read from a 2xx
  body and passed the store's check.
\<close>

lemma completeVerificationDemo_world:
  "snd (completeVerificationDemo registryUrl instantOf rep agent lvl w) =
     (case rep of
        Ok2xx (Some j) \<Rightarrow>
          (case attestationOf registryUrl (Val j) of
             Inr att \<Rightarrow>
               if wellFormed instantOf att
               then (fetch (verifyDemoRequest registryUrl agent lvl) w)
                      \<lparr>attestationRecord := Some att,
                        effects := effects w @
                          [Fetch (verifyDemoRequest registryUrl agent lvl),
                           SaveAttestation att]\<rparr>
               else fetch (verifyDemoRequest registryUrl agent lvl) w
           | Inl e \<Rightarrow> fetch (verifyDemoRequest registryUrl agent lvl) w)
      | _ \<Rightarrow> fetch (verifyDemoRequest registryUrl agent lvl) w)"
proof (cases rep)
  case (FetchRejected m)
  then show ?thesis by (simp add: completeVerificationDemo_no_body)
next
  case (NotOk st b)
  then show ?thesis by (simp add: completeVerificationDemo_no_body)
next
  case (Ok2xx d)
  show ?thesis
  proof (cases d)
    case None
    with Ok2xx show ?thesis by (simp add: completeVerificationDemo_no_body)
  next
    case (Some j)
    show ?thesis
    proof (cases "attestationOf registryUrl (Val j)")
      case (Inl e)
      with Ok2xx Some show ?thesis by (simp add: completeVerificationDemo_unreadable)
    next
      case (Inr att)
      with Ok2xx Some show ?thesis
        by (cases "wellFormed instantOf att")
           (simp_all add: completeVerificationDemo_accepted completeVerificationDemo_malformed)
    qed
  qed
qed




text \<open>
  Claim C5. Every attestation accepted into the credential store satisfies
  \<open>expiresAt > issuedAt\<close>. When the attestation of a registry response violates this,
  the call ends with the malformed-issuer error and nothing is stored: the keychain and
  both records are as before and the only effect is the request. And if the stored
  attestation, when there is one, satisfied \<open>expiresAt > issuedAt\<close> before the call,
  so does the one stored after it, whatever the registry answered.
\<close>

theorem completeVerificationDemo_rejects_malformed_attestation:
  "(\<forall>j att. rep = Ok2xx (Some j) \<and> attestationOf registryUrl (Val j) = Inr att
             \<and> \<not> wellFormed instantOf att \<longrightarrow>
      fst (completeVerificationDemo registryUrl instantOf rep agent lvl w) = Inl MalformedIssuer
      \<and> attestationRecord (snd (completeVerificationDemo registryUrl instantOf rep agent lvl w))
        = attestationRecord w
      \<and> agentRecord (snd (completeVerificationDemo registryUrl instantOf rep agent lvl w))
        = agentRecord w
      \<and> keychain (snd (completeVerificationDemo registryUrl instantOf rep agent lvl w))
        = keychain w
      \<and> effects (snd (completeVerificationDemo registryUrl instantOf rep agent lvl w))
        = effects w @ [Fetch (verifyDemoRequest registryUrl agent lvl)])
   \<and> ((\<forall>att. attestationRecord w = Some att \<longrightarrow> wellFormed instantOf att) \<longrightarrow>
       (\<forall>att. attestationRecord
                (snd (completeVerificationDemo registryUrl instantOf rep agent lvl w)) = Some att
          \<longrightarrow> (\<exists>issued expires. instantOf (issuedAt att) = Some issued
                \<and> instantOf (expiresAt att) = Some expires \<and> expires > issued)))"
proof -
  have explicit: "\<And>att. wellFormed instantOf att \<Longrightarrow>
      \<exists>issued expires. instantOf (issuedAt att) = Some issued
                \<and> instantOf (expiresAt att) = Some expires \<and> expires > issued"
    by (auto simp: wellFormed_def split: option.splits)
  have malformed: "\<forall>j att. rep = Ok2xx (Some j) \<and> attestationOf registryUrl (Val j) = Inr att
             \<and> \<not> wellFormed instantOf att \<longrightarrow>
      fst (completeVerificationDemo registryUrl instantOf rep agent lvl w) = Inl MalformedIssuer
      \<and> attestationRecord (snd (completeVerificationDemo registryUrl instantOf rep agent lvl w))
        = attestationRecord w
      \<and> agentRecord (snd (completeVerificationDemo registryUrl instantOf rep agent lvl w))
        = agentRecord w
      \<and> keychain (snd (completeVerificationDemo registryUrl instantOf rep agent lvl w))
        = keychain w
      \<and> effects (snd (completeVerificationDemo registryUrl instantOf rep agent lvl w))
        = effects w @ [Fetch (verifyDemoRequest registryUrl agent lvl)]"
    by (simp add: completeVerificationDemo_malformed)
  have kept: "\<And>att. (\<forall>a. attestationRecord w = Some a \<longrightarrow> wellFormed instantOf a) \<Longrightarrow>
       attestationRecord
         (snd (completeVerificationDemo registryUrl instantOf rep agent lvl w)) = Some att
       \<Longrightarrow> wellFormed instantOf att"
    by (auto simp: completeVerificationDemo_world
             split: reply.splits option.splits sum.splits if_splits)
  from malformed kept explicit show ?thesis by blast
qed

text \<open>
  A response whose attestation expires a year before it was issued, on a profile that
  holds an earlier attestation; and an acceptable response on the same profile.
\<close>

theorem completeVerificationDemo_rejects_malformed_attestation_witness:
  "fst (completeVerificationDemo ''https://registry.test''
          (\<lambda>v. if v = Val (JStr ''2026-01-01T00:00:00Z'') then Some (1767225600000::int)
               else if v = Val (JStr ''2027-01-01T00:00:00Z'') then Some (1798761600000::int)
               else None)
          (Ok2xx (Some (JObj [(''agent'', JObj [(''identity'',
               JObj [(''level'', JStr ''kyc''), (''attestation_jwt'', JStr ''bad.jwt''),
                     (''issued_at'', JStr ''2027-01-01T00:00:00Z''),
                     (''expires_at'', JStr ''2026-01-01T00:00:00Z'')])])])))
          ''agent-1'' LevelKyc
          \<lparr>keychain = Some ''0a'', agentRecord = None,
           attestationRecord = Some \<lparr>identityLevel = Val (JStr ''kyc''), attestationJwt = Val (JStr ''old.jwt''),
              issuedAt = Val (JStr ''2026-01-01T00:00:00Z''),
              expiresAt = Val (JStr ''2027-01-01T00:00:00Z''),
              issuer = ''https://registry.test''\<rparr>,
           effects = []\<rparr>)
     = Inl MalformedIssuer
   \<and> attestationRecord (snd (completeVerificationDemo ''https://registry.test''
          (\<lambda>v. if v = Val (JStr ''2026-01-01T00:00:00Z'') then Some (1767225600000::int)
               else if v = Val (JStr ''2027-01-01T00:00:00Z'') then Some (1798761600000::int)
               else None)
          (Ok2xx (Some (JObj [(''agent'', JObj [(''identity'',
               JObj [(''level'', JStr ''kyc''), (''attestation_jwt'', JStr ''bad.jwt''),
                     (''issued_at'', JStr ''2027-01-01T00:00:00Z''),
                     (''expires_at'', JStr ''2026-01-01T00:00:00Z'')])])])))
          ''agent-1'' LevelKyc
          \<lparr>keychain = Some ''0a'', agentRecord = None,
           attestationRecord = Some \<lparr>identityLevel = Val (JStr ''kyc''), attestationJwt = Val (JStr ''old.jwt''),
              issuedAt = Val (JStr ''2026-01-01T00:00:00Z''),
              expiresAt = Val (JStr ''2027-01-01T00:00:00Z''),
              issuer = ''https://registry.test''\<rparr>,
           effects = []\<rparr>))
     = Some \<lparr>identityLevel = Val (JStr ''kyc''), attestationJwt = Val (JStr ''old.jwt''),
              issuedAt = Val (JStr ''2026-01-01T00:00:00Z''),
              expiresAt = Val (JStr ''2027-01-01T00:00:00Z''),
              issuer = ''https://registry.test''\<rparr>
   \<and> (\<exists>issued expires.
         ((\<lambda>v. if v = Val (JStr ''2026-01-01T00:00:00Z'') then Some (1767225600000::int)
               else if v = Val (JStr ''2027-01-01T00:00:00Z'') then Some (1798761600000::int)
               else None))
           (issuedAt (the (attestationRecord (snd (completeVerificationDemo ''https://registry.test''
          (\<lambda>v. if v = Val (JStr ''2026-01-01T00:00:00Z'') then Some (1767225600000::int)
               else if v = Val (JStr ''2027-01-01T00:00:00Z'') then Some (1798761600000::int)
               else None)
          (Ok2xx (Some (JObj [(''agent'', JObj [(''identity'',
               JObj [(''level'', JStr ''kyc''), (''attestation_jwt'', JStr ''new.jwt''),
                     (''issued_at'', JStr ''2026-01-01T00:00:00Z''),
                     (''expires_at'', JStr ''2027-01-01T00:00:00Z'')])])])))
          ''agent-1'' LevelKyc
          \<lparr>keychain = Some ''0a'', agentRecord = None,
           attestationRecord = Some \<lparr>identityLevel = Val (JStr ''kyc''), attestationJwt = Val (JStr ''old.jwt''),
              issuedAt = Val (JStr ''2026-01-01T00:00:00Z''),
              expiresAt = Val (JStr ''2027-01-01T00:00:00Z''),
              issuer = ''https://registry.test''\<rparr>,
           effects = []\<rparr>)))))
           = Some issued
       \<and> ((\<lambda>v. if v = Val (JStr ''2026-01-01T00:00:00Z'') then Some (1767225600000::int)
               else if v = Val (JStr ''2027-01-01T00:00:00Z'') then Some (1798761600000::int)
               else None))
           (expiresAt (the (attestationRecord (snd (completeVerificationDemo ''https://registry.test''
          (\<lambda>v. if v = Val (JStr ''2026-01-01T00:00:00Z'') then Some (1767225600000::int)
               else if v = Val (JStr ''2027-01-01T00:00:00Z'') then Some (1798761600000::int)
               else None)
          (Ok2xx (Some (JObj [(''agent'', JObj [(''identity'',
               JObj [(''level'', JStr ''kyc''), (''attestation_jwt'', JStr ''new.jwt''),
                     (''issued_at'', JStr ''2026-01-01T00:00:00Z''),
                     (''expires_at'', JStr ''2027-01-01T00:00:00Z'')])])])))
          ''agent-1'' LevelKyc
          \<lparr>keychain = Some ''0a'', agentRecord = None,
           attestationRecord = Some \<lparr>identityLevel = Val (JStr ''kyc''), attestationJwt = Val (JStr ''old.jwt''),
              issuedAt = Val (JStr ''2026-01-01T00:00:00Z''),
              expiresAt = Val (JStr ''2027-01-01T00:00:00Z''),
              issuer = ''https://registry.test''\<rparr>,
           effects = []\<rparr>)))))
           = Some expires
       \<and> expires > issued)"
  using completeVerificationDemo_rejects_malformed_attestation
    [where rep = "Ok2xx (Some (JObj [(''agent'', JObj [(''identity'',
               JObj [(''level'', JStr ''kyc''), (''attestation_jwt'', JStr ''bad.jwt''),
                     (''issued_at'', JStr ''2027-01-01T00:00:00Z''),
                     (''expires_at'', JStr ''2026-01-01T00:00:00Z'')])])]))"
       and registryUrl = "''https://registry.test''"
       and instantOf = "(\<lambda>v. if v = Val (JStr ''2026-01-01T00:00:00Z'') then Some (1767225600000::int)
               else if v = Val (JStr ''2027-01-01T00:00:00Z'') then Some (1798761600000::int)
               else None)"
       and agent = "''agent-1''" and lvl = LevelKyc
       and w = "\<lparr>keychain = Some ''0a'', agentRecord = None,
           attestationRecord = Some \<lparr>identityLevel = Val (JStr ''kyc''), attestationJwt = Val (JStr ''old.jwt''),
              issuedAt = Val (JStr ''2026-01-01T00:00:00Z''),
              expiresAt = Val (JStr ''2027-01-01T00:00:00Z''),
              issuer = ''https://registry.test''\<rparr>,
           effects = []\<rparr>"]
    completeVerificationDemo_rejects_malformed_attestation
    [where rep = "Ok2xx (Some (JObj [(''agent'', JObj [(''identity'',
               JObj [(''level'', JStr ''kyc''), (''attestation_jwt'', JStr ''new.jwt''),
                     (''issued_at'', JStr ''2026-01-01T00:00:00Z''),
                     (''expires_at'', JStr ''2027-01-01T00:00:00Z'')])])]))"
       and registryUrl = "''https://registry.test''"
       and instantOf = "(\<lambda>v. if v = Val (JStr ''2026-01-01T00:00:00Z'') then Some (1767225600000::int)
               else if v = Val (JStr ''2027-01-01T00:00:00Z'') then Some (1798761600000::int)
               else None)"
       and agent = "''agent-1''" and lvl = LevelKyc
       and w = "\<lparr>keychain = Some ''0a'', agentRecord = None,
           attestationRecord = Some \<lparr>identityLevel = Val (JStr ''kyc''), attestationJwt = Val (JStr ''old.jwt''),
              issuedAt = Val (JStr ''2026-01-01T00:00:00Z''),
              expiresAt = Val (JStr ''2027-01-01T00:00:00Z''),
              issuer = ''https://registry.test''\<rparr>,
           effects = []\<rparr>"]
  by (simp add: completeVerificationDemo_def verifyDemoRequest_def attestationOf_def getProp_def
        errorBody_def orElse_def truthyVal_def wellFormed_def saveAttestation_def fetch_def Let_def)

subsection \<open>registerAgent\<close>

lemma getProp_defined_any:
  assumes "getProp k v = Inr u"
  shows "\<exists>u'. getProp k' v = Inr u'"
proof (cases v)
  case Undefined
  with assms show ?thesis by (simp add: getProp_def)
next
  case BuiltinFunction
  then show ?thesis by (simp add: getProp_def)
next
  case (Val j)
  with assms have "j \<noteq> JNull" by (auto simp: getProp_def)
  with Val show ?thesis using getProp_not_null by simp
qed

lemma path_defined_any:
  assumes "path (k # ks) v = Inr u"
  shows "\<exists>u'. getProp k' v = Inr u'"
proof (cases "getProp k v")
  case (Inl e)
  with assms show ?thesis by simp
next
  case (Inr x)
  then show ?thesis by (rule getProp_defined_any)
qed

text \<open>
  Once \<open>data.agent.id\<close> was read, \<open>data.verification_url\<close> cannot throw: the lines
  after a parsed registration response either throw before the save or save and return.
\<close>

lemma registered_cases:
  "(\<exists>e. registered registryUrl env params pubKey data w = (Inl e, w))
   \<or> (\<exists>agent_id key_id verification_url.
         path [''agent'', ''id''] data = Inr agent_id
       \<and> keyIdOf data = Inr key_id
       \<and> getProp ''verification_url'' data = Inr verification_url
       \<and> registered registryUrl env params pubKey data w =
           (Inr \<lparr>resAgentId = agent_id, resVerificationUrl = verification_url,
                 resKeyId = key_id, resPublicKey = pubKey\<rparr>,
            saveAgent \<lparr>agentId = agent_id, keyId = key_id, publicKey = pubKey,
                       registeredAt = nowISO env\<rparr>
              (caip10 (walletAddress params)) (name params) registryUrl w))"
proof (cases "path [''agent'', ''id''] data")
  case (Inl e)
  then show ?thesis by (simp add: registered_def)
next
  case aid: (Inr agent_id)
  show ?thesis
  proof (cases "keyIdOf data")
    case (Inl e)
    with aid show ?thesis by (simp add: registered_def)
  next
    case kid: (Inr key_id)
    from path_defined_any [OF aid] obtain vurl
      where "getProp ''verification_url'' data = Inr vurl" by blast
    with aid kid show ?thesis by (simp add: registered_def Let_def)
  qed
qed

lemma registered_frame:
  "keychain (snd (registered registryUrl env params pubKey data w)) = keychain w"
  "attestationRecord (snd (registered registryUrl env params pubKey data w))
     = attestationRecord w"
  "\<exists>rest. effects (snd (registered registryUrl env params pubKey data w)) = effects w @ rest"
  "fst (registered registryUrl env params pubKey data w) = Inl e \<Longrightarrow>
     agentRecord (snd (registered registryUrl env params pubKey data w)) = agentRecord w"
  using registered_cases [of registryUrl env params pubKey data w] by auto




lemma registerAgent_Inr_inversion:
  assumes "fst (registerAgent registryUrl lib env params w) = Inr r"
  shows "\<exists>c msg sg d agent_id key_id verification_url.
           challengeReply env = Ok2xx (Some c)
         \<and> getProp ''message'' (Val c) = Inr msg
         \<and> signMessage lib (walletPrivateKey params) msg = Inr sg
         \<and> registerReply env = Ok2xx (Some d)
         \<and> path [''agent'', ''id''] (Val d) = Inr agent_id
         \<and> keyIdOf (Val d) = Inr key_id
         \<and> getProp ''verification_url'' (Val d) = Inr verification_url"
proof -
  from assms have "\<exists>c msg sg d. \<exists>w3::world.
         challengeReply env = Ok2xx (Some c)
       \<and> getProp ''message'' (Val c) = Inr msg
       \<and> signMessage lib (walletPrivateKey params) msg = Inr sg
       \<and> registerReply env = Ok2xx (Some d)
       \<and> fst (registered registryUrl env params
                 (getPublicKey lib (randomPrivateKey env)) (Val d) w3) = Inr r"
    by (auto simp: registerAgent_def generateKeyPair_def getChallenge_def Let_def
          split: reply.splits option.splits sum.splits)
  then obtain c msg sg d and w3 :: world where
    env: "challengeReply env = Ok2xx (Some c)"
         "getProp ''message'' (Val c) = Inr msg"
         "signMessage lib (walletPrivateKey params) msg = Inr sg"
         "registerReply env = Ok2xx (Some d)"
    and r: "fst (registered registryUrl env params
                   (getPublicKey lib (randomPrivateKey env)) (Val d) w3) = Inr r"
    by blast
  from registered_cases
         [of registryUrl env params "getPublicKey lib (randomPrivateKey env)" "Val d" w3] r
  obtain agent_id key_id verification_url where
    "path [''agent'', ''id''] (Val d) = Inr agent_id"
    "keyIdOf (Val d) = Inr key_id"
    "getProp ''verification_url'' (Val d) = Inr verification_url"
    by auto
  with env show ?thesis by blast
qed

lemma registered_effects_prefix:
  "\<exists>rest. effects (snd (registered registryUrl env params pubKey data
                          (fetch r2 (fetch r1 (savePrivateKey k w)))))
            = effects w @ SavePrivateKey k # Fetch r1 # rest"
proof -
  from registered_frame(3)
         [of registryUrl env params pubKey data "fetch r2 (fetch r1 (savePrivateKey k w))"]
  obtain rest where
    "effects (snd (registered registryUrl env params pubKey data
                     (fetch r2 (fetch r1 (savePrivateKey k w)))))
       = effects (fetch r2 (fetch r1 (savePrivateKey k w))) @ rest" by blast
  then have "effects (snd (registered registryUrl env params pubKey data
                             (fetch r2 (fetch r1 (savePrivateKey k w)))))
       = effects w @ SavePrivateKey k # Fetch r1 # (Fetch r2 # rest)" by simp
  then show ?thesis by blast
qed

lemma registerAgent_effects_prefix:
  "\<exists>rest. effects (snd (registerAgent registryUrl lib env params w)) =
      effects w @ SavePrivateKey (toHex (randomPrivateKey env))
        # Fetch (challengeRequest registryUrl (walletAddress params)) # rest"
  by (auto simp: registerAgent_def generateKeyPair_def getChallenge_def Let_def
        intro: registered_effects_prefix
        split: reply.splits option.splits sum.splits)

lemma registerAgent_keychain:
  "keychain (snd (registerAgent registryUrl lib env params w))
     = Some (toHex (randomPrivateKey env))"
  by (auto simp: registerAgent_def generateKeyPair_def getChallenge_def Let_def
        registered_frame(1)
        split: reply.splits option.splits sum.splits)

lemma registerAgent_failure_frame:
  "fst (registerAgent registryUrl lib env params w) = Inl e \<Longrightarrow>
     agentRecord (snd (registerAgent registryUrl lib env params w)) = agentRecord w
   \<and> attestationRecord (snd (registerAgent registryUrl lib env params w))
       = attestationRecord w"
  by (auto simp: registerAgent_def generateKeyPair_def getChallenge_def Let_def
        registered_frame(2) registered_frame(4)
        split: reply.splits option.splits sum.splits)







text \<open>
  Claim C8. \<open>registerAgent\<close> saves the new private key to the keychain before any
  network call: whatever the outcome, the keychain holds the new key afterwards and the
  first two effects of the call are the key save and then the challenge request. If the
  challenge request or the registration request fails, the call fails, and on every
  failure the agent identity and the attestation in the credential store are as before.
\<close>

theorem registerAgent_key_saved_before_network:
  "keychain (snd (registerAgent registryUrl lib env params w))
     = Some (toHex (randomPrivateKey env))
   \<and> (\<exists>rest. effects (snd (registerAgent registryUrl lib env params w)) =
         effects w @ SavePrivateKey (toHex (randomPrivateKey env))
           # Fetch (challengeRequest registryUrl (walletAddress params)) # rest)
   \<and> ((\<forall>m. challengeReply env \<noteq> Ok2xx (Some m)) \<or> (\<forall>d. registerReply env \<noteq> Ok2xx (Some d))
        \<longrightarrow> (\<exists>e. fst (registerAgent registryUrl lib env params w) = Inl e))
   \<and> ((\<exists>e. fst (registerAgent registryUrl lib env params w) = Inl e) \<longrightarrow>
        agentRecord (snd (registerAgent registryUrl lib env params w)) = agentRecord w
        \<and> attestationRecord (snd (registerAgent registryUrl lib env params w))
            = attestationRecord w)"
proof -
  have fails: "(\<forall>m. challengeReply env \<noteq> Ok2xx (Some m)) \<or> (\<forall>d. registerReply env \<noteq> Ok2xx (Some d))
        \<longrightarrow> (\<exists>e. fst (registerAgent registryUrl lib env params w) = Inl e)"
  proof (cases "fst (registerAgent registryUrl lib env params w)")
    case (Inl e)
    then show ?thesis by simp
  next
    case (Inr r)
    from registerAgent_Inr_inversion [OF this] show ?thesis by auto
  qed
  have frame: "(\<exists>e. fst (registerAgent registryUrl lib env params w) = Inl e) \<longrightarrow>
        agentRecord (snd (registerAgent registryUrl lib env params w)) = agentRecord w
        \<and> attestationRecord (snd (registerAgent registryUrl lib env params w))
            = attestationRecord w"
    using registerAgent_failure_frame by blast
  from registerAgent_keychain [of registryUrl lib env params w]
       registerAgent_effects_prefix [of registryUrl lib env params w] fails frame
  show ?thesis by blast
qed

text \<open>
  A profile that holds the key \<open>ffee\<close> and the identity \<open>agent-0\<close>; the registry is
  unreachable. The call throws, the keychain holds the new key \<open>01ab\<close>, the stored
  identity is still \<open>agent-0\<close>, whose public key belongs to the key that is gone.
\<close>

theorem registerAgent_key_saved_before_network_witness:
  "fst (registerAgent ''https://registry.test''
          \<lparr>getPublicKey = (\<lambda>k. ''pk-'' @ toHex k),
           signMessage = (\<lambda>key m. case m of Val (JStr s) \<Rightarrow> Inr (''signed:'' @ s)
                                      | _ \<Rightarrow> Inl TypeError),
           stringOf = (\<lambda>v. ''[object Object]'')\<rparr>
          \<lparr>randomPrivateKey = [0x01, 0xAB],
           challengeReply = FetchRejected ''connect ECONNREFUSED'',
           registerReply = Ok2xx (Some (JObj [(''agent'', JObj [(''id'', JStr ''agent-1''),
                                       (''keys'', JArr [JObj [(''key_id'', JStr ''key-1'')]])]),
                    (''verification_url'', JStr ''https://registry.test/verify/1'')])),
           nowISO = ''2026-01-01T00:00:00.000Z''\<rparr>
          \<lparr>walletAddress = ''0xAbC1'', walletPrivateKey = ''0x01'', name = ''Clawd Agent''\<rparr>
          (\<lparr>keychain = Some ''ffee'',
           agentRecord = Some \<lparr>agentInfo = \<lparr>agentId = Val (JStr ''agent-0''), keyId = Val (JStr ''key-0''),
                            publicKey = ''pk-ffee'', registeredAt = ''2025-06-01T00:00:00.000Z''\<rparr>,
               storedWalletAddress = ''eip155:8453:0xabc1'', storedName = ''Clawd Agent'',
               storedRegistryUrl = ''https://registry.test''\<rparr>,
           attestationRecord = None, effects = []\<rparr>))
     = Inl (FetchError ''connect ECONNREFUSED'')
   \<and> keychain (snd (registerAgent ''https://registry.test''
          \<lparr>getPublicKey = (\<lambda>k. ''pk-'' @ toHex k),
           signMessage = (\<lambda>key m. case m of Val (JStr s) \<Rightarrow> Inr (''signed:'' @ s)
                                      | _ \<Rightarrow> Inl TypeError),
           stringOf = (\<lambda>v. ''[object Object]'')\<rparr>
          \<lparr>randomPrivateKey = [0x01, 0xAB],
           challengeReply = FetchRejected ''connect ECONNREFUSED'',
           registerReply = Ok2xx (Some (JObj [(''agent'', JObj [(''id'', JStr ''agent-1''),
                                       (''keys'', JArr [JObj [(''key_id'', JStr ''key-1'')]])]),
                    (''verification_url'', JStr ''https://registry.test/verify/1'')])),
           nowISO = ''2026-01-01T00:00:00.000Z''\<rparr>
          \<lparr>walletAddress = ''0xAbC1'', walletPrivateKey = ''0x01'', name = ''Clawd Agent''\<rparr>
          (\<lparr>keychain = Some ''ffee'',
           agentRecord = Some \<lparr>agentInfo = \<lparr>agentId = Val (JStr ''agent-0''), keyId = Val (JStr ''key-0''),
                            publicKey = ''pk-ffee'', registeredAt = ''2025-06-01T00:00:00.000Z''\<rparr>,
               storedWalletAddress = ''eip155:8453:0xabc1'', storedName = ''Clawd Agent'',
               storedRegistryUrl = ''https://registry.test''\<rparr>,
           attestationRecord = None, effects = []\<rparr>)))
     = Some ''01ab''
   \<and> agentRecord (snd (registerAgent ''https://registry.test''
          \<lparr>getPublicKey = (\<lambda>k. ''pk-'' @ toHex k),
           signMessage = (\<lambda>key m. case m of Val (JStr s) \<Rightarrow> Inr (''signed:'' @ s)
                                      | _ \<Rightarrow> Inl TypeError),
           stringOf = (\<lambda>v. ''[object Object]'')\<rparr>
          \<lparr>randomPrivateKey = [0x01, 0xAB],
           challengeReply = FetchRejected ''connect ECONNREFUSED'',
           registerReply = Ok2xx (Some (JObj [(''agent'', JObj [(''id'', JStr ''agent-1''),
                                       (''keys'', JArr [JObj [(''key_id'', JStr ''key-1'')]])]),
                    (''verification_url'', JStr ''https://registry.test/verify/1'')])),
           nowISO = ''2026-01-01T00:00:00.000Z''\<rparr>
          \<lparr>walletAddress = ''0xAbC1'', walletPrivateKey = ''0x01'', name = ''Clawd Agent''\<rparr>
          (\<lparr>keychain = Some ''ffee'',
           agentRecord = Some \<lparr>agentInfo = \<lparr>agentId = Val (JStr ''agent-0''), keyId = Val (JStr ''key-0''),
                            publicKey = ''pk-ffee'', registeredAt = ''2025-06-01T00:00:00.000Z''\<rparr>,
               storedWalletAddress = ''eip155:8453:0xabc1'', storedName = ''Clawd Agent'',
               storedRegistryUrl = ''https://registry.test''\<rparr>,
           attestationRecord = None, effects = []\<rparr>)))
     = Some \<lparr>agentInfo = \<lparr>agentId = Val (JStr ''agent-0''), keyId = Val (JStr ''key-0''),
                            publicKey = ''pk-ffee'', registeredAt = ''2025-06-01T00:00:00.000Z''\<rparr>,
               storedWalletAddress = ''eip155:8453:0xabc1'', storedName = ''Clawd Agent'',
               storedRegistryUrl = ''https://registry.test''\<rparr>"
  using registerAgent_key_saved_before_network
    [where registryUrl = "''https://registry.test''"
       and lib = "\<lparr>getPublicKey = (\<lambda>k. ''pk-'' @ toHex k),
           signMessage = (\<lambda>key m. case m of Val (JStr s) \<Rightarrow> Inr (''signed:'' @ s)
                                      | _ \<Rightarrow> Inl TypeError),
           stringOf = (\<lambda>v. ''[object Object]'')\<rparr>"
       and params = "\<lparr>walletAddress = ''0xAbC1'', walletPrivateKey = ''0x01'', name = ''Clawd Agent''\<rparr>"
       and env = "\<lparr>randomPrivateKey = [0x01, 0xAB],
           challengeReply = FetchRejected ''connect ECONNREFUSED'',
           registerReply = Ok2xx (Some (JObj [(''agent'', JObj [(''id'', JStr ''agent-1''),
                                       (''keys'', JArr [JObj [(''key_id'', JStr ''key-1'')]])]),
                    (''verification_url'', JStr ''https://registry.test/verify/1'')])),
           nowISO = ''2026-01-01T00:00:00.000Z''\<rparr>"
       and w = "\<lparr>keychain = Some ''ffee'',
           agentRecord = Some \<lparr>agentInfo = \<lparr>agentId = Val (JStr ''agent-0''), keyId = Val (JStr ''key-0''),
                            publicKey = ''pk-ffee'', registeredAt = ''2025-06-01T00:00:00.000Z''\<rparr>,
               storedWalletAddress = ''eip155:8453:0xabc1'', storedName = ''Clawd Agent'',
               storedRegistryUrl = ''https://registry.test''\<rparr>,
           attestationRecord = None, effects = []\<rparr>"]
  by (simp add: registerAgent_def registered_def keyIdOf_def index0_def getProp_def generateKeyPair_def
        getChallenge_def Let_def toHex_def hexDigit_def caip10_def CHAIN_ID_string_def CHAIN_ID_def
        toLowerCase_def toLowerChar_def orElse_def truthyVal_def errorMessage_def errorBody_def
        challengeRequest_def registerRequest_def)

subsection \<open>Bodies that are not of the expected shape\<close>

text \<open>
  The reads \<open>data.valid\<close> and \<open>error.detail\<close> throw on a body that parses to \<open>null\<close>;
  the replacement by \<open>{}\<close> covers only a body that cannot be parsed. A 2xx body
  without \<open>agent\<close> makes the first read of \<open>data.agent.identity\<close> throw, before any
  save.
\<close>

lemma completeVerificationDemo_body_without_agent:
  "completeVerificationDemo registryUrl instantOf (Ok2xx (Some (JObj []))) agent lvl w
     = (Inl TypeError, fetch (verifyDemoRequest registryUrl agent lvl) w)"
  by (simp add: completeVerificationDemo_def attestationOf_def getProp_def)

lemma verifyAgent_null_body:
  "fst (verifyAgent registryUrl (Ok2xx (Some JNull)) addr att w) = Inl TypeError"
  by (simp add: verifyAgent_def verified_def getProp_def)

lemma registerAgent_null_error_body:
  assumes "challengeReply env = Ok2xx (Some c)"
      and "getProp ''message'' (Val c) = Inr msg"
      and "signMessage lib (walletPrivateKey params) msg = Inr sg"
      and "registerReply env = NotOk statusText (Some JNull)"
  shows "fst (registerAgent registryUrl lib env params w) = Inl TypeError"
  using assms
  by (simp add: registerAgent_def generateKeyPair_def getChallenge_def Let_def errorBody_def
        getProp_def)


end
